theory Spec2Isabelle
  imports Main "HOL-Library.Word"
begin

section \<open>Data model of continuation.cpp\<close>

text \<open>
  The embedding follows the product build of
  \<^verbatim>\<open>src/hotspot/share/runtime/continuation.cpp\<close> with JVMTI included:
  \<^verbatim>\<open>assert\<close> and \<^verbatim>\<open>log_trace\<close> lines compile to nothing there.
  Pointers that the code tests against \<^verbatim>\<open>nullptr\<close> are options, and a
  dereference of a null pointer is the value \<open>Inl NullPointerDereference\<close>.
\<close>

type_synonym address = nat

type_synonym ref = nat

text \<open>An \<^verbatim>\<open>oop\<close>: \<open>None\<close> is the null reference.\<close>

type_synonym oop = "ref option"

datatype fault = NullPointerDereference

text \<open>
  Modelled from the spec: \<^verbatim>\<open>enum freeze_result\<close> is declared in continuation.hpp,
  which is not among the sources. The spec names the three statuses below and speaks of
  "other documented failure codes" of the freeze engine; \<open>freeze_other n\<close> stands for
  the \<open>n\<close>-th of those.
\<close>

datatype freeze_result =
  freeze_ok | freeze_pinned_native | freeze_not_mounted | freeze_other nat

text \<open>The fields of a \<^verbatim>\<open>jdk.internal.vm.Continuation\<close> object that this file reads.\<close>

record JvmContinuation =
  cont_done :: bool
  cont_preempted :: bool
  cont_scope :: oop

text \<open>
  A \<^verbatim>\<open>ContinuationEntry\<close>: \<open>cont\<close> is what \<^verbatim>\<open>cont_oop(thread)\<close> reads. The
  \<^verbatim>\<open>parent()\<close> link is the position in the thread's chain (see \<open>cont_chain\<close>).
\<close>

record ContinuationEntry =
  cont :: oop
  entry_sp :: address
  pin_count :: int

text \<open>
  Modelled from the spec: the state tags of \<^verbatim>\<open>java_lang_VirtualThread\<close> are declared
  in javaClasses.hpp, which is not among the sources; the code only compares the tag with
  \<^verbatim>\<open>RUNNING\<close>.
\<close>

datatype vthread_state = RUNNING | OTHER_STATE nat

record VirtualThread =
  vt_state :: vthread_state
  vt_is_instance :: bool
  vt_is_preemption_disabled :: bool

text \<open>
  A \<^verbatim>\<open>JavaThread\<close>. \<open>cont_chain\<close> is the list reached from
  \<^verbatim>\<open>last_continuation()\<close> through \<^verbatim>\<open>parent()\<close>, innermost entry first;
  \<open>vthread\<close> holds the fields of the object \<^verbatim>\<open>target->vthread()\<close>.
\<close>

record JavaThread =
  cont_chain :: "ContinuationEntry list"
  preempting :: bool
  has_last_Java_frame :: bool
  has_pending_exception :: bool
  last_Java_pc :: address
  last_Java_sp :: address
  vthread :: VirtualThread
  is_in_VTMS_transition :: bool
  is_suspended :: bool
  is_at_poll_safepoint :: bool

text \<open>
  The part of the virtual machine that this file shares with its collaborators: the
  target thread and the continuation objects of the heap.
\<close>

record vm_state =
  target_thread :: JavaThread
  heap :: "ref \<Rightarrow> JvmContinuation"

text \<open>
  The state \<^verbatim>\<open>try_preempt\<close> works on: the shared state, and the file's static
  \<^verbatim>\<open>fail_counter\<close> (a \<^verbatim>\<open>uint64_t\<close>), which no other file can reach.
\<close>

record preempt_state =
  vm :: vm_state
  fail_counter :: "64 word"

text \<open>
  Modelled from the spec: the codelet kinds of \<^verbatim>\<open>InterpreterCodelet\<close> are declared
  outside the sources; the code names \<^verbatim>\<open>codelet_bytecode\<close> and
  \<^verbatim>\<open>codelet_safepoint_entry\<close>.
\<close>

datatype codelet_kind = codelet_bytecode | codelet_safepoint_entry | codelet_other

record InterpreterCodelet =
  bytecode :: int
  kind :: codelet_kind

record CodeBlob =
  is_safepoint_stub :: bool

text \<open>
  The collaborators the file calls and does not define. The classifiers of the interpreter
  and the code cache, \<^verbatim>\<open>Bytecodes::is_return\<close>, the JVMTI switch and the scope of
  virtual threads are read only. The debug transition (\<open>start_VTMS_transition\<close>,
  \<open>finish_VTMS_transition\<close>, \<open>rebind_to_jvmti_thread_state_of\<close>) and the freeze
  engine (\<open>freeze_preempt_entry\<close>, called with the target and its last Java sp) may
  change the shared state in any way: each is a function from the state before the call to
  the value returned and the state after it. Every call is also recorded as a \<open>call\<close>,
  in the order of the calls.
\<close>

record collaborators =
  Interpreter_contains :: "address \<Rightarrow> bool"
  Interpreter_codelet_containing :: "address \<Rightarrow> InterpreterCodelet option"
  Bytecodes_is_return :: "int \<Rightarrow> bool"
  CodeCache_find_blob :: "address \<Rightarrow> CodeBlob option"
  notify_jvmti_events :: bool
  vthread_scope :: oop
  start_VTMS_transition :: "vm_state \<Rightarrow> bool \<times> vm_state"
  finish_VTMS_transition :: "vm_state \<Rightarrow> vm_state"
  rebind_to_jvmti_thread_state_of :: "vm_state \<Rightarrow> vm_state"
  freeze_preempt_entry :: "vm_state \<Rightarrow> address \<Rightarrow> freeze_result \<times> vm_state"

datatype call =
  Call_start_VTMS_transition
  | Call_freeze_preempt_entry address
  | Call_finish_VTMS_transition
  | Call_rebind_to_jvmti_thread_state_of

section \<open>Mount tracking\<close>

definition last_continuation :: "JavaThread \<Rightarrow> ContinuationEntry option" where
  "last_continuation t = (case cont_chain t of [] \<Rightarrow> None | ce # _ \<Rightarrow> Some ce)"

text \<open>
  The loop of \<^verbatim>\<open>get_continuation_entry_for_continuation\<close>, from an entry along
  \<^verbatim>\<open>parent()\<close> until the chain ends.
\<close>

fun scan_entries :: "oop \<Rightarrow> ContinuationEntry list \<Rightarrow> ContinuationEntry option" where
  "scan_entries continuation [] = None"
| "scan_entries continuation (entry # parents) =
     (if continuation = cont entry then Some entry
      else scan_entries continuation parents)"

definition get_continuation_entry_for_continuation ::
  "JavaThread option \<Rightarrow> oop \<Rightarrow> ContinuationEntry option" where
  "get_continuation_entry_for_continuation thread continuation =
     (case thread of
        None \<Rightarrow> None
      | Some t \<Rightarrow>
          (if continuation = None then None
           else scan_entries continuation (cont_chain t)))"

definition is_on_stack :: "JavaThread option \<Rightarrow> ContinuationEntry option \<Rightarrow> bool" where
  "is_on_stack thread entry = (case entry of None \<Rightarrow> False | Some _ \<Rightarrow> True)"

definition is_continuation_mounted :: "JavaThread option \<Rightarrow> oop \<Rightarrow> bool" where
  "is_continuation_mounted thread continuation =
     is_on_stack thread (get_continuation_entry_for_continuation thread continuation)"

text \<open>
  The test that \<^verbatim>\<open>is_on_stack\<close> keeps only as a comment after its
  \<^verbatim>\<open>return true\<close>:
  \<^verbatim>\<open>!thread->has_last_Java_frame() || thread->last_Java_sp() < cont->entry_sp()\<close>.
  It is what tells an entry whose stack region is live from a stale one, on return from
  freeze.
\<close>

definition entry_region_live :: "JavaThread \<Rightarrow> ContinuationEntry \<Rightarrow> bool" where
  "entry_region_live thread entry =
     (\<not> has_last_Java_frame thread \<or> last_Java_sp thread < entry_sp entry)"

section \<open>Pinning\<close>

text \<open>
  Modelled from the spec: \<^verbatim>\<open>ContinuationEntry::pin\<close> and
  \<^verbatim>\<open>ContinuationEntry::unpin\<close> are defined in continuationEntry.hpp, which is not
  among the sources. The spec: pin and unpin increment and decrement the entry's pin
  count; unpin fails (returns false) if the count is already zero; pin fails if the count
  would exceed a fixed maximum, here the parameter \<open>pin_max\<close>.
\<close>

definition ContinuationEntry_pin :: "int \<Rightarrow> ContinuationEntry \<Rightarrow> bool \<times> ContinuationEntry" where
  "ContinuationEntry_pin pin_max ce =
     (if pin_count ce + 1 > pin_max then (False, ce)
      else (True, ce\<lparr>pin_count := pin_count ce + 1\<rparr>))"

definition ContinuationEntry_unpin :: "ContinuationEntry \<Rightarrow> bool \<times> ContinuationEntry" where
  "ContinuationEntry_unpin ce =
     (if pin_count ce = 0 then (False, ce)
      else (True, ce\<lparr>pin_count := pin_count ce - 1\<rparr>))"

definition Continuation_pin :: "int \<Rightarrow> JavaThread \<Rightarrow> bool \<times> JavaThread" where
  "Continuation_pin pin_max current =
     (case cont_chain current of
        [] \<Rightarrow> (True, current)
      | ce # parents \<Rightarrow>
          (case ContinuationEntry_pin pin_max ce of
             (ok, ce') \<Rightarrow> (ok, current\<lparr>cont_chain := ce' # parents\<rparr>)))"

definition Continuation_unpin :: "JavaThread \<Rightarrow> bool \<times> JavaThread" where
  "Continuation_unpin current =
     (case cont_chain current of
        [] \<Rightarrow> (True, current)
      | ce # parents \<Rightarrow>
          (case ContinuationEntry_unpin ce of
             (ok, ce') \<Rightarrow> (ok, current\<lparr>cont_chain := ce' # parents\<rparr>)))"

datatype java_exception = IllegalStateException string

text \<open>The JNI entries: the exception thrown, if any, and the thread afterwards.\<close>

definition CONT_pin :: "int \<Rightarrow> JavaThread \<Rightarrow> java_exception option \<times> JavaThread" where
  "CONT_pin pin_max thread =
     (case Continuation_pin pin_max thread of
        (ok, thread') \<Rightarrow>
          (if \<not> ok then (Some (IllegalStateException ''pin overflow''), thread')
           else (None, thread')))"

definition CONT_unpin :: "JavaThread \<Rightarrow> java_exception option \<times> JavaThread" where
  "CONT_unpin thread =
     (case Continuation_unpin thread of
        (ok, thread') \<Rightarrow>
          (if \<not> ok then (Some (IllegalStateException ''pin underflow''), thread')
           else (None, thread')))"

section \<open>Safety predicates\<close>

definition is_safe_vthread_to_preempt_for_jvmti :: "collaborators \<Rightarrow> JavaThread \<Rightarrow> bool" where
  "is_safe_vthread_to_preempt_for_jvmti K target =
     (if \<not> notify_jvmti_events K then True
      else if is_in_VTMS_transition target then False
      else if is_suspended target then False
      else True)"

definition is_safe_vthread_to_preempt :: "collaborators \<Rightarrow> JavaThread \<Rightarrow> oop \<Rightarrow> bool" where
  "is_safe_vthread_to_preempt K target c =
     (if vt_state (vthread target) \<noteq> RUNNING
         \<or> \<not> vt_is_instance (vthread target)
         \<or> vt_is_preemption_disabled (vthread target)
      then False
      else is_safe_vthread_to_preempt_for_jvmti K target)"

definition is_safe_pc_to_preempt :: "collaborators \<Rightarrow> address \<Rightarrow> JavaThread \<Rightarrow> fault + bool" where
  "is_safe_pc_to_preempt K pc target =
     (if Interpreter_contains K pc then
        (case Interpreter_codelet_containing K pc of
           None \<Rightarrow> Inr False
         | Some codelet \<Rightarrow>
             (if bytecode codelet \<ge> 0 \<and> Bytecodes_is_return K (bytecode codelet) then Inr True
              else if kind codelet = codelet_safepoint_entry then Inr True
              else Inr False))
      else
        (case CodeCache_find_blob K pc of
           None \<Rightarrow> Inl NullPointerDereference
         | Some cb \<Rightarrow> (if is_safepoint_stub cb then Inr True else Inr False)))"

definition is_safe_to_preempt :: "collaborators \<Rightarrow> JavaThread \<Rightarrow> oop \<Rightarrow> bool \<Rightarrow> fault + bool" where
  "is_safe_to_preempt K target continuation is_vthread =
     (if preempting target then Inr False
      else if \<not> has_last_Java_frame target then Inr False
      else if has_pending_exception target then Inr False
      else
        (case is_safe_pc_to_preempt K (last_Java_pc target) target of
           Inl f \<Rightarrow> Inl f
         | Inr safe_pc \<Rightarrow>
             (if \<not> safe_pc then Inr False
              else if is_vthread \<and> \<not> is_safe_vthread_to_preempt K target continuation
              then Inr False
              else Inr True)))"

section \<open>The preemption orchestrator\<close>

record JvmtiUnmountBeginMark =
  preempt_result :: freeze_result
  do_VTMS_transition :: bool
  transition_succeded :: bool
  mark_is_vthread :: bool

text \<open>The constructor: the mark, the state it leaves and the collaborator calls it made.\<close>

definition JvmtiUnmountBeginMark_ctor ::
  "collaborators \<Rightarrow> vm_state \<Rightarrow> bool \<Rightarrow> JvmtiUnmountBeginMark \<times> vm_state \<times> call list" where
  "JvmtiUnmountBeginMark_ctor K s is_vthread =
     (let m = \<lparr>preempt_result = freeze_pinned_native, do_VTMS_transition = False,
               transition_succeded = True, mark_is_vthread = is_vthread\<rparr>
      in if \<not> is_vthread then (m, s, [])
         else if notify_jvmti_events K
         then (case start_VTMS_transition K s of
                 (started, s') \<Rightarrow>
                   (m\<lparr>do_VTMS_transition := True, transition_succeded := started\<rparr>,
                    s', [Call_start_VTMS_transition]))
         else (m, s, []))"

text \<open>
  The destructor, run when \<^verbatim>\<open>try_preempt\<close> returns after the mark was built: the
  state it leaves and the calls it makes.
\<close>

definition JvmtiUnmountBeginMark_dtor ::
  "collaborators \<Rightarrow> JvmtiUnmountBeginMark \<Rightarrow> vm_state \<Rightarrow> vm_state \<times> call list" where
  "JvmtiUnmountBeginMark_dtor K m s =
     (if \<not> mark_is_vthread m then (s, [])
      else if do_VTMS_transition m then
        (if preempt_result m = freeze_ok
         then (rebind_to_jvmti_thread_state_of K s, [Call_rebind_to_jvmti_thread_state_of])
         else if transition_succeded m
         then (finish_VTMS_transition K s, [Call_finish_VTMS_transition])
         else (s, []))
      else (s, []))"


definition is_continuation_done :: "(ref \<Rightarrow> JvmContinuation) \<Rightarrow> oop \<Rightarrow> fault + bool" where
  "is_continuation_done h c =
     (case c of None \<Rightarrow> Inl NullPointerDereference | Some r \<Rightarrow> Inr (cont_done (h r)))"

definition is_continuation_preempted :: "(ref \<Rightarrow> JvmContinuation) \<Rightarrow> oop \<Rightarrow> fault + bool" where
  "is_continuation_preempted h c =
     (case c of None \<Rightarrow> Inl NullPointerDereference | Some r \<Rightarrow> Inr (cont_preempted (h r)))"

definition continuation_scope :: "(ref \<Rightarrow> JvmContinuation) \<Rightarrow> oop \<Rightarrow> oop" where
  "continuation_scope h continuation =
     (case continuation of None \<Rightarrow> None | Some r \<Rightarrow> cont_scope (h r))"

definition set_preempting :: "bool \<Rightarrow> vm_state \<Rightarrow> vm_state" where
  "set_preempting b s = s\<lparr>target_thread := (target_thread s)\<lparr>preempting := b\<rparr>\<rparr>"

text \<open>
  \<^verbatim>\<open>Continuation::try_preempt\<close>: a fault, or the status returned, the state
  afterwards and the collaborator calls made, in order.
\<close>

definition try_preempt ::
  "collaborators \<Rightarrow> oop \<Rightarrow> preempt_state
     \<Rightarrow> fault + (freeze_result \<times> preempt_state \<times> call list)" where
  "try_preempt K continuation w =
     (case last_continuation (target_thread (vm w)) of
        None \<Rightarrow> Inr (freeze_not_mounted, w, [])
      | Some ce \<Rightarrow>
          (let mounted_cont = cont ce in
           if mounted_cont \<noteq> continuation then Inr (freeze_not_mounted, w, [])
           else
             (case is_continuation_done (heap (vm w)) mounted_cont of
                Inl f \<Rightarrow> Inl f
              | Inr is_done \<Rightarrow>
                  if is_done then Inr (freeze_not_mounted, w, [])
                  else
                    (let is_vthread =
                           (continuation_scope (heap (vm w)) mounted_cont = vthread_scope K)
                     in case is_safe_to_preempt K (target_thread (vm w)) mounted_cont
                               is_vthread of
                          Inl f \<Rightarrow> Inl f
                        | Inr safe \<Rightarrow>
                            if \<not> safe then Inr (freeze_pinned_native, w, [])
                            else
                              (case JvmtiUnmountBeginMark_ctor K (vm w) is_vthread of
                                 (jubm, s1, begun) \<Rightarrow>
                                   if \<not> transition_succeded jubm
                                   then
                                     (case JvmtiUnmountBeginMark_dtor K jubm s1 of
                                        (s2, ended) \<Rightarrow>
                                          Inr (freeze_pinned_native, w\<lparr>vm := s2\<rparr>,
                                               begun @ ended))
                                   else
                                     (let s2 = set_preempting True s1;
                                          sp = last_Java_sp (target_thread s2)
                                      in case freeze_preempt_entry K s2 sp of
                                           (res, s3) \<Rightarrow>
                                             (let jubm' = jubm\<lparr>preempt_result := res\<rparr>
                                              in if res \<noteq> freeze_ok then
                                                   (let s4 = set_preempting False s3;
                                                        counter = fail_counter w + 1
                                                    in case JvmtiUnmountBeginMark_dtor K jubm' s4 of
                                                         (s5, ended) \<Rightarrow>
                                                           Inr (res,
                                                                \<lparr>vm = s5, fail_counter = counter\<rparr>,
                                                                begun @ [Call_freeze_preempt_entry sp]
                                                                @ ended))
                                                 else
                                                   (case JvmtiUnmountBeginMark_dtor K jubm' s3 of
                                                      (s5, ended) \<Rightarrow>
                                                        Inr (res, w\<lparr>vm := s5\<rparr>,
                                                             begun @ [Call_freeze_preempt_entry sp]
                                                             @ ended)))))))))"

text \<open>
  A caller that repeats a request: \<open>n\<close> calls of \<^verbatim>\<open>try_preempt\<close> one after another,
  each on the state the one before left. The result is the statuses and calls of every
  attempt and the last state; a fault ends the sequence.
\<close>

fun retry_preempt ::
  "nat \<Rightarrow> collaborators \<Rightarrow> oop \<Rightarrow> preempt_state
     \<Rightarrow> fault + ((freeze_result \<times> call list) list \<times> preempt_state)" where
  "retry_preempt 0 K continuation w = Inr ([], w)"
| "retry_preempt (Suc n) K continuation w =
     (case try_preempt K continuation w of
        Inl f \<Rightarrow> Inl f
      | Inr (res, w', calls) \<Rightarrow>
          (case retry_preempt n K continuation w' of
             Inl f \<Rightarrow> Inl f
           | Inr (rs, w'') \<Rightarrow> Inr ((res, calls) # rs, w'')))"

section \<open>Concrete collaborators and states\<close>

text \<open>
  A freeze engine for the examples. With \<open>res = freeze_ok\<close> it unmounts the innermost
  continuation: the entry leaves the chain, the continuation is marked preempted and the
  last Java sp is the entry's. With any other status it leaves the state alone.
\<close>

definition demo_freeze :: "freeze_result \<Rightarrow> vm_state \<Rightarrow> address \<Rightarrow> freeze_result \<times> vm_state" where
  "demo_freeze res s sp =
     (if res \<noteq> freeze_ok then (res, s)
      else
        (case cont_chain (target_thread s) of
           [] \<Rightarrow> (res, s)
         | ce # parents \<Rightarrow>
             (res,
              \<lparr>target_thread =
                 (target_thread s)\<lparr>cont_chain := parents, last_Java_sp := entry_sp ce\<rparr>,
               heap =
                 (case cont ce of
                    None \<Rightarrow> heap s
                  | Some r \<Rightarrow> (heap s)(r := (heap s r)\<lparr>cont_preempted := True\<rparr>))\<rparr>)))"

definition set_in_VTMS_transition :: "bool \<Rightarrow> vm_state \<Rightarrow> vm_state" where
  "set_in_VTMS_transition b s = s\<lparr>target_thread := (target_thread s)\<lparr>is_in_VTMS_transition := b\<rparr>\<rparr>"

text \<open>
  An interpreter at the addresses below 100, with return-bytecode codelets below 10 (the
  six return bytecodes are 172 to 177), safepoint-entry codelets below 20, other codelets
  below 50 and no codelet above; a code cache at the addresses 100 to 199, with
  safepoint stubs below 150. The debug transition starts when \<open>started\<close> holds, and
  then marks the target as in transition; finishing clears the mark. The freeze engine
  is \<open>demo_freeze res\<close>.
\<close>

definition demo_collaborators :: "freeze_result \<Rightarrow> bool \<Rightarrow> collaborators" where
  "demo_collaborators res started =
     \<lparr>Interpreter_contains = (\<lambda>pc. pc < 100),
      Interpreter_codelet_containing =
        (\<lambda>pc. if pc < 10 then Some \<lparr>bytecode = 172, kind = codelet_bytecode\<rparr>
              else if pc < 20 then Some \<lparr>bytecode = - 1, kind = codelet_safepoint_entry\<rparr>
              else if pc < 50 then Some \<lparr>bytecode = - 1, kind = codelet_other\<rparr>
              else None),
      Bytecodes_is_return = (\<lambda>b. 172 \<le> b \<and> b \<le> 177),
      CodeCache_find_blob =
        (\<lambda>pc. if 100 \<le> pc \<and> pc < 200 then Some \<lparr>is_safepoint_stub = (pc < 150)\<rparr>
              else None),
      notify_jvmti_events = True,
      vthread_scope = Some 9,
      start_VTMS_transition =
        (\<lambda>s. if started then (True, set_in_VTMS_transition True s) else (False, s)),
      finish_VTMS_transition = set_in_VTMS_transition False,
      rebind_to_jvmti_thread_state_of = (\<lambda>s. s),
      freeze_preempt_entry = demo_freeze res\<rparr>"

definition demo_entry :: "ref \<Rightarrow> address \<Rightarrow> ContinuationEntry" where
  "demo_entry r sp = \<lparr>cont = Some r, entry_sp = sp, pin_count = 0\<rparr>"

text \<open>
  A carrier thread at a safepoint stub (pc 120), running a virtual thread whose
  continuation 1 is mounted inside continuation 2.
\<close>

definition demo_thread :: JavaThread where
  "demo_thread =
     \<lparr>cont_chain = [demo_entry 1 5000, demo_entry 2 6000],
      preempting = False,
      has_last_Java_frame = True,
      has_pending_exception = False,
      last_Java_pc = 120,
      last_Java_sp = 4000,
      vthread = \<lparr>vt_state = RUNNING, vt_is_instance = True,
                 vt_is_preemption_disabled = False\<rparr>,
      is_in_VTMS_transition = False,
      is_suspended = False,
      is_at_poll_safepoint = False\<rparr>"

text \<open>A heap where continuation 3 is done and the others are not; all have scope 9.\<close>

definition demo_heap :: "ref \<Rightarrow> JvmContinuation" where
  "demo_heap r = \<lparr>cont_done = (r = 3), cont_preempted = False, cont_scope = Some 9\<rparr>"

definition demo_state :: "JavaThread \<Rightarrow> preempt_state" where
  "demo_state t = \<lparr>vm = \<lparr>target_thread = t, heap = demo_heap\<rparr>, fail_counter = 41\<rparr>"

text \<open>The state the demo freeze engine leaves when it freezes the demo thread.\<close>

definition demo_frozen_state :: preempt_state where
  "demo_frozen_state =
     \<lparr>vm = \<lparr>target_thread =
              demo_thread\<lparr>cont_chain := [demo_entry 2 6000],
                           preempting := True,
                           last_Java_sp := 5000,
                           is_in_VTMS_transition := True\<rparr>,
            heap = demo_heap(1 := (demo_heap 1)\<lparr>cont_preempted := True\<rparr>)\<rparr>,
       fail_counter = 41\<rparr>"

section \<open>Rules for unfolding\<close>

lemmas demo_defs =
  demo_collaborators_def demo_entry_def demo_thread_def demo_heap_def demo_state_def
  demo_freeze_def set_in_VTMS_transition_def

lemmas run_defs =
  try_preempt_def last_continuation_def is_continuation_done_def
  continuation_scope_def is_safe_to_preempt_def is_safe_pc_to_preempt_def
  is_safe_vthread_to_preempt_def is_safe_vthread_to_preempt_for_jvmti_def
  JvmtiUnmountBeginMark_ctor_def JvmtiUnmountBeginMark_dtor_def set_preempting_def
  Let_def

section \<open>Mount tracking: theorems\<close>

text \<open>
  The scan is the library's \<open>find\<close>: the first entry of the chain, from the innermost,
  whose continuation is the one asked for.
\<close>

lemma scan_entries_find:
  "scan_entries c es = find (\<lambda>e. cont e = c) es"
  by (induction es) auto

text \<open>
  C10. For a null thread or a null continuation
  \<^verbatim>\<open>get_continuation_entry_for_continuation\<close> returns none whatever the chain holds;
  for a thread and a continuation it returns the first entry of the thread's chain, from
  the innermost, whose continuation is the given one, and none when no entry matches.
  Asking whether a continuation is mounted with a null argument answers no.
\<close>

theorem get_continuation_entry_for_continuation_first_match:
  "get_continuation_entry_for_continuation None continuation = None
   \<and> get_continuation_entry_for_continuation thread None = None
   \<and> get_continuation_entry_for_continuation (Some t) (Some r)
       = find (\<lambda>entry. cont entry = Some r) (cont_chain t)
   \<and> is_continuation_mounted None continuation = False
   \<and> is_continuation_mounted thread None = False"
  by (simp add: get_continuation_entry_for_continuation_def is_continuation_mounted_def
      is_on_stack_def scan_entries_find split: option.split)

text \<open>
  The null test comes before the scan: for a null continuation the answer is none also
  on a chain where the scan alone would stop at an entry that holds a null continuation.
\<close>

lemma null_continuation_not_scanned:
  "scan_entries None [\<lparr>cont = None, entry_sp = 5000, pin_count = 0\<rparr>]
     = Some \<lparr>cont = None, entry_sp = 5000, pin_count = 0\<rparr>
   \<and> get_continuation_entry_for_continuation
         (Some (demo_thread\<lparr>cont_chain := [\<lparr>cont = None, entry_sp = 5000, pin_count = 0\<rparr>]\<rparr>))
         None = None"
  by (simp add: get_continuation_entry_for_continuation_def)

text \<open>
  C4, as stated, fails. On a thread whose last Java sp (7000) is no longer below the
  entry's \<open>entry_sp\<close> (5000), the state the disabled test of \<^verbatim>\<open>is_on_stack\<close> was
  written for, the entry of continuation 1 is still on the chain, its region is not
  live, and \<^verbatim>\<open>is_continuation_mounted\<close> answers yes.
\<close>

theorem is_continuation_mounted_stale_entry:
  "is_continuation_mounted (Some (demo_thread\<lparr>last_Java_sp := 7000\<rparr>)) (Some 1)
   \<and> get_continuation_entry_for_continuation (Some (demo_thread\<lparr>last_Java_sp := 7000\<rparr>)) (Some 1)
       = Some (demo_entry 1 5000)
   \<and> \<not> entry_region_live (demo_thread\<lparr>last_Java_sp := 7000\<rparr>) (demo_entry 1 5000)"
  by (simp add: is_continuation_mounted_def is_on_stack_def
      get_continuation_entry_for_continuation_def entry_region_live_def demo_defs)

text \<open>
  C4, amended. \<^verbatim>\<open>is_continuation_mounted\<close> answers yes exactly when an entry for the
  continuation is found on the thread's chain; the stack region of the entry is not
  looked at.
\<close>

theorem is_continuation_mounted_iff_entry_found:
  "is_continuation_mounted thread continuation
     = (get_continuation_entry_for_continuation thread continuation \<noteq> None)"
  by (simp add: is_continuation_mounted_def is_on_stack_def split: option.split)

section \<open>Safe program counters: theorems\<close>

text \<open>
  C3, as stated, fails. At a safepoint stub of the code cache (pc 120) the classifier
  answers yes for a thread that is already at a poll safepoint: the flag is read for the
  log line only.
\<close>

theorem is_safe_pc_to_preempt_at_poll_safepoint:
  "is_safe_pc_to_preempt (demo_collaborators freeze_ok True) 120
       (demo_thread\<lparr>is_at_poll_safepoint := True\<rparr>) = Inr True
   \<and> \<not> Interpreter_contains (demo_collaborators freeze_ok True) 120
   \<and> is_at_poll_safepoint (demo_thread\<lparr>is_at_poll_safepoint := True\<rparr>)"
  by (simp add: is_safe_pc_to_preempt_def demo_defs)

text \<open>
  C3, amended. The classifier answers yes exactly when the pc lies in the interpreter at
  a codelet of a return bytecode or at a safepoint-entry codelet, or lies outside the
  interpreter in a blob that is a safepoint stub, whatever the thread's poll-safepoint
  flag. Every other pc is answered no, but for a pc outside the interpreter for which the
  code cache finds no blob: there the code dereferences the null blob.
\<close>

theorem is_safe_pc_to_preempt_classification:
  "is_safe_pc_to_preempt K pc target =
     (if \<not> Interpreter_contains K pc \<and> CodeCache_find_blob K pc = None
      then Inl NullPointerDereference
      else Inr
        ((Interpreter_contains K pc \<and>
           (case Interpreter_codelet_containing K pc of
              None \<Rightarrow> False
            | Some codelet \<Rightarrow>
                (bytecode codelet \<ge> 0 \<and> Bytecodes_is_return K (bytecode codelet))
                \<or> kind codelet = codelet_safepoint_entry))
         \<or> (\<not> Interpreter_contains K pc \<and>
              (case CodeCache_find_blob K pc of
                 None \<Rightarrow> False
               | Some cb \<Rightarrow> is_safepoint_stub cb))))"
  by (simp add: is_safe_pc_to_preempt_def split: option.split)

section \<open>The preemption orchestrator: theorems\<close>

text \<open>
  The early returns of \<^verbatim>\<open>try_preempt\<close>. A request that is refused without any
  effect is refused the same way however often it is repeated.
\<close>

lemma try_preempt_refusal:
  assumes "last_continuation (target_thread (vm w)) = None
           \<or> (\<exists>ce. last_continuation (target_thread (vm w)) = Some ce
                 \<and> (cont ce \<noteq> continuation
                    \<or> is_continuation_done (heap (vm w)) (cont ce) = Inr True))"
  shows "try_preempt K continuation w = Inr (freeze_not_mounted, w, [])"
  using assms by (auto simp: try_preempt_def Let_def)

lemma retry_preempt_refusal:
  assumes "try_preempt K continuation w = Inr (res, w, [])"
  shows "retry_preempt n K continuation w = Inr (replicate n (res, []), w)"
  using assms by (induction n) simp_all

text \<open>
  The path of a call that reached the freeze entry. \<open>begun\<close> says whether a debug
  transition was started, \<open>s1\<close> is the state after the start, \<open>s2\<close> the state the
  freeze engine is called in and \<open>s3\<close> the state it leaves.
\<close>

lemma try_preempt_dispatched:
  assumes "try_preempt K continuation w = Inr (res, w', calls)"
    and "Call_freeze_preempt_entry sp \<in> set calls"
    and "begun = (continuation_scope (heap (vm w)) continuation = vthread_scope K
                  \<and> notify_jvmti_events K)"
    and "s1 = (if begun then snd (start_VTMS_transition K (vm w)) else vm w)"
    and "s2 = set_preempting True s1"
    and "s3 = snd (freeze_preempt_entry K s2 sp)"
  shows "\<exists>ce. last_continuation (target_thread (vm w)) = Some ce \<and> cont ce = continuation"
    and "is_continuation_done (heap (vm w)) continuation = Inr False"
    and "is_safe_to_preempt K (target_thread (vm w)) continuation
           (continuation_scope (heap (vm w)) continuation = vthread_scope K) = Inr True"
    and "begun \<Longrightarrow> fst (start_VTMS_transition K (vm w))"
    and "sp = last_Java_sp (target_thread s2)"
    and "res = fst (freeze_preempt_entry K s2 sp)"
    and "w' = (if res \<noteq> freeze_ok
               then \<lparr>vm = (if begun then finish_VTMS_transition K (set_preempting False s3)
                           else set_preempting False s3),
                     fail_counter = fail_counter w + 1\<rparr>
               else w\<lparr>vm := (if begun then rebind_to_jvmti_thread_state_of K s3 else s3)\<rparr>)"
    and "calls =
           (if begun then [Call_start_VTMS_transition] else [])
           @ [Call_freeze_preempt_entry sp]
           @ (if begun
              then (if res = freeze_ok then [Call_rebind_to_jvmti_thread_state_of]
                    else [Call_finish_VTMS_transition])
              else [])"
  using assms
  by (auto simp: try_preempt_def Let_def JvmtiUnmountBeginMark_ctor_def
      JvmtiUnmountBeginMark_dtor_def
      split: option.splits sum.splits if_splits prod.splits)

text \<open>
  A call that did not reach the freeze entry returns one of the two refusals and leaves
  the counter; with no collaborator call at all it leaves everything.
\<close>

lemma try_preempt_not_dispatched:
  assumes "try_preempt K continuation w = Inr (res, w', calls)"
    and "\<forall>sp. Call_freeze_preempt_entry sp \<notin> set calls"
  shows "res = freeze_not_mounted \<or> res = freeze_pinned_native"
    and "fail_counter w' = fail_counter w"
    and "calls = [] \<Longrightarrow> w' = w"
  using assms
  by (auto simp: try_preempt_def Let_def JvmtiUnmountBeginMark_ctor_def
      JvmtiUnmountBeginMark_dtor_def
      split: option.splits sum.splits if_splits prod.splits)

text \<open>
  Two runs on the demo state: the engine reports another failure code, and the engine
  freezes.
\<close>

lemma demo_run_failed:
  "try_preempt (demo_collaborators (freeze_other 2) True) (Some 1) (demo_state demo_thread)
     = Inr (freeze_other 2, (demo_state demo_thread)\<lparr>fail_counter := 42\<rparr>,
            [Call_start_VTMS_transition, Call_freeze_preempt_entry 4000,
             Call_finish_VTMS_transition])"
  by (simp add: run_defs demo_defs)

lemma demo_run_frozen:
  "try_preempt (demo_collaborators freeze_ok True) (Some 1) (demo_state demo_thread)
     = Inr (freeze_ok, demo_frozen_state,
            [Call_start_VTMS_transition, Call_freeze_preempt_entry 4000,
             Call_rebind_to_jvmti_thread_state_of])"
  by (simp add: run_defs demo_defs demo_frozen_state_def)

text \<open>
  C1. When the target has no innermost entry, or the entry's continuation is not the
  requested one, or the mounted continuation is done, \<^verbatim>\<open>try_preempt\<close> returns
  \<^verbatim>\<open>freeze_not_mounted\<close>, leaves the whole state as it was (flags, counter, heap) and
  calls no collaborator; so do \<open>n\<close> attempts in a row, for every \<open>n\<close>.
\<close>

theorem try_preempt_not_mounted_no_effect:
  assumes "last_continuation (target_thread (vm w)) = None
           \<or> (\<exists>ce. last_continuation (target_thread (vm w)) = Some ce
                 \<and> (cont ce \<noteq> continuation
                    \<or> is_continuation_done (heap (vm w)) (cont ce) = Inr True))"
  shows "try_preempt K continuation w = Inr (freeze_not_mounted, w, [])
         \<and> retry_preempt n K continuation w
             = Inr (replicate n (freeze_not_mounted, []), w)"
proof -
  have once: "try_preempt K continuation w = Inr (freeze_not_mounted, w, [])"
    using assms by (rule try_preempt_refusal)
  then show ?thesis
    by (simp add: retry_preempt_refusal)
qed

text \<open>
  The three cases at concrete states: another continuation is innermost, the mounted
  continuation is done, nothing is mounted.
\<close>

theorem try_preempt_not_mounted_no_effect_witness:
  "try_preempt (demo_collaborators freeze_ok True) (Some 2) (demo_state demo_thread)
     = Inr (freeze_not_mounted, demo_state demo_thread, [])
   \<and> retry_preempt 3 (demo_collaborators freeze_ok True) (Some 2) (demo_state demo_thread)
     = Inr ([(freeze_not_mounted, []), (freeze_not_mounted, []), (freeze_not_mounted, [])],
            demo_state demo_thread)
   \<and> try_preempt (demo_collaborators freeze_ok True) (Some 3)
        (demo_state (demo_thread\<lparr>cont_chain := [demo_entry 3 5000]\<rparr>))
     = Inr (freeze_not_mounted, demo_state (demo_thread\<lparr>cont_chain := [demo_entry 3 5000]\<rparr>), [])
   \<and> try_preempt (demo_collaborators freeze_ok True) (Some 1)
        (demo_state (demo_thread\<lparr>cont_chain := []\<rparr>))
     = Inr (freeze_not_mounted, demo_state (demo_thread\<lparr>cont_chain := []\<rparr>), [])"
proof -
  let ?K = "demo_collaborators freeze_ok True"
  let ?w2 = "demo_state demo_thread"
  let ?w3 = "demo_state (demo_thread\<lparr>cont_chain := [demo_entry 3 5000]\<rparr>)"
  let ?w0 = "demo_state (demo_thread\<lparr>cont_chain := []\<rparr>)"
  have differs: "last_continuation (target_thread (vm ?w2)) = None
      \<or> (\<exists>ce. last_continuation (target_thread (vm ?w2)) = Some ce
            \<and> (cont ce \<noteq> Some 2
               \<or> is_continuation_done (heap (vm ?w2)) (cont ce) = Inr True))"
    by (simp add: last_continuation_def demo_defs)
  have finished: "last_continuation (target_thread (vm ?w3)) = None
      \<or> (\<exists>ce. last_continuation (target_thread (vm ?w3)) = Some ce
            \<and> (cont ce \<noteq> Some 3
               \<or> is_continuation_done (heap (vm ?w3)) (cont ce) = Inr True))"
    by (simp add: last_continuation_def is_continuation_done_def demo_defs)
  have absent: "last_continuation (target_thread (vm ?w0)) = None
      \<or> (\<exists>ce. last_continuation (target_thread (vm ?w0)) = Some ce
            \<and> (cont ce \<noteq> Some 1
               \<or> is_continuation_done (heap (vm ?w0)) (cont ce) = Inr True))"
    by (simp add: last_continuation_def demo_defs)
  show ?thesis
    using try_preempt_not_mounted_no_effect [OF differs, of ?K 3]
      try_preempt_not_mounted_no_effect [OF finished, of ?K 0]
      try_preempt_not_mounted_no_effect [OF absent, of ?K 0]
    by (simp add: numeral_3_eq_3)
qed

text \<open>
  C2. On a mounted continuation that is not done, when \<^verbatim>\<open>is_safe_to_preempt\<close>
  answers no, \<^verbatim>\<open>try_preempt\<close> returns \<^verbatim>\<open>freeze_pinned_native\<close>; the state
  afterwards is the state before (so the entry chain and the preempted flag of the
  continuation are as they were) and no collaborator is called: neither the debug
  transition nor the freeze entry.
\<close>

theorem try_preempt_unsafe_pinned_native:
  assumes "last_continuation (target_thread (vm w)) = Some ce"
    and "cont ce = continuation"
    and "is_continuation_done (heap (vm w)) continuation = Inr False"
    and "is_safe_to_preempt K (target_thread (vm w)) continuation
           (continuation_scope (heap (vm w)) continuation = vthread_scope K) = Inr False"
  shows "try_preempt K continuation w = Inr (freeze_pinned_native, w, [])"
  using assms by (simp add: try_preempt_def Let_def)

text \<open>
  A thread stopped at pc 170, a blob of the code cache that is no safepoint stub.
\<close>

theorem try_preempt_unsafe_pinned_native_witness:
  "is_safe_to_preempt (demo_collaborators freeze_ok True)
       (demo_thread\<lparr>last_Java_pc := 170\<rparr>) (Some 1) True = Inr False
   \<and> try_preempt (demo_collaborators freeze_ok True) (Some 1)
        (demo_state (demo_thread\<lparr>last_Java_pc := 170\<rparr>))
     = Inr (freeze_pinned_native, demo_state (demo_thread\<lparr>last_Java_pc := 170\<rparr>), [])"
proof -
  let ?K = "demo_collaborators freeze_ok True"
  let ?t = "demo_thread\<lparr>last_Java_pc := 170\<rparr>"
  let ?w = "demo_state ?t"
  have scope: "(continuation_scope (heap (vm ?w)) (Some 1) = vthread_scope ?K) = True"
    by (simp add: continuation_scope_def demo_defs)
  have entry: "last_continuation (target_thread (vm ?w)) = Some (demo_entry 1 5000)"
    by (simp add: last_continuation_def demo_defs)
  have same: "cont (demo_entry 1 5000) = Some 1"
    by (simp add: demo_defs)
  have live: "is_continuation_done (heap (vm ?w)) (Some 1) = Inr False"
    by (simp add: is_continuation_done_def demo_defs)
  have unsafe: "is_safe_to_preempt ?K ?t (Some 1) True = Inr False"
    by (simp add: is_safe_to_preempt_def is_safe_pc_to_preempt_def demo_defs)
  have unsafe': "is_safe_to_preempt ?K (target_thread (vm ?w)) (Some 1)
      (continuation_scope (heap (vm ?w)) (Some 1) = vthread_scope ?K) = Inr False"
    using unsafe scope by (simp add: demo_state_def)
  show ?thesis
    using try_preempt_unsafe_pinned_native [OF entry same live unsafe'] unsafe
    by simp
qed

text \<open>
  C5, as stated, fails. When the freeze engine reports another failure code,
  \<^verbatim>\<open>try_preempt\<close> returns that code: \<^verbatim>\<open>return res\<close> maps nothing.
\<close>

theorem try_preempt_returns_other_status:
  "try_preempt (demo_collaborators (freeze_other 2) True) (Some 1) (demo_state demo_thread)
     = Inr (freeze_other 2, (demo_state demo_thread)\<lparr>fail_counter := 42\<rparr>,
            [Call_start_VTMS_transition, Call_freeze_preempt_entry 4000,
             Call_finish_VTMS_transition])
   \<and> freeze_other 2 \<noteq> freeze_ok
   \<and> freeze_other 2 \<noteq> freeze_pinned_native
   \<and> freeze_other 2 \<noteq> freeze_not_mounted"
  using demo_run_failed by simp

text \<open>
  C5, amended. The value returned is \<^verbatim>\<open>freeze_not_mounted\<close> or
  \<^verbatim>\<open>freeze_pinned_native\<close> when the freeze entry was not called, and otherwise the
  status the freeze engine returned, whatever it is. The engine is called in the state
  \<open>s2\<close>: the state after the start of the debug transition, if one is begun, with the
  target marked as preempting.
\<close>

theorem try_preempt_status_passthrough:
  assumes "try_preempt K continuation w = Inr (res, w', calls)"
    and "s1 = (if continuation_scope (heap (vm w)) continuation = vthread_scope K
                  \<and> notify_jvmti_events K
               then snd (start_VTMS_transition K (vm w)) else vm w)"
    and "s2 = set_preempting True s1"
  shows "if \<exists>sp. Call_freeze_preempt_entry sp \<in> set calls
         then res = fst (freeze_preempt_entry K s2 (last_Java_sp (target_thread s2)))
         else res = freeze_not_mounted \<or> res = freeze_pinned_native"
proof (cases "\<exists>sp. Call_freeze_preempt_entry sp \<in> set calls")
  case True
  then obtain sp where sent: "Call_freeze_preempt_entry sp \<in> set calls"
    by blast
  have "sp = last_Java_sp (target_thread s2)"
    using try_preempt_dispatched(5) [OF assms(1) sent refl assms(2) assms(3) refl] .
  moreover have "res = fst (freeze_preempt_entry K s2 sp)"
    using try_preempt_dispatched(6) [OF assms(1) sent refl assms(2) assms(3) refl] .
  ultimately show ?thesis
    using True by simp
next
  case False
  then have "\<forall>sp. Call_freeze_preempt_entry sp \<notin> set calls"
    by blast
  from try_preempt_not_dispatched(1) [OF assms(1) this] show ?thesis
    using False by simp
qed

theorem try_preempt_status_passthrough_witness:
  "try_preempt (demo_collaborators (freeze_other 2) True) (Some 1) (demo_state demo_thread)
     = Inr (freeze_other 2, (demo_state demo_thread)\<lparr>fail_counter := 42\<rparr>,
            [Call_start_VTMS_transition, Call_freeze_preempt_entry 4000,
             Call_finish_VTMS_transition])
   \<and> freeze_other 2
     = fst (freeze_preempt_entry (demo_collaborators (freeze_other 2) True)
              (set_preempting True (set_in_VTMS_transition True (vm (demo_state demo_thread))))
              4000)"
proof -
  let ?K = "demo_collaborators (freeze_other 2) True"
  let ?w = "demo_state demo_thread"
  let ?s2 = "set_preempting True (set_in_VTMS_transition True (vm ?w))"
  have s1: "set_in_VTMS_transition True (vm ?w)
      = (if continuation_scope (heap (vm ?w)) (Some 1) = vthread_scope ?K
            \<and> notify_jvmti_events ?K
         then snd (start_VTMS_transition ?K (vm ?w)) else vm ?w)"
    by (simp add: continuation_scope_def demo_collaborators_def demo_heap_def demo_state_def)
  have sp: "last_Java_sp (target_thread ?s2) = 4000"
    by (simp add: set_preempting_def demo_defs)
  show ?thesis
    using try_preempt_status_passthrough [OF demo_run_failed s1 refl] demo_run_failed sp
    by simp
qed

text \<open>
  What \<^verbatim>\<open>is_safe_to_preempt\<close> tests. It answers yes exactly when the target is not
  preempting, has a last Java frame, has no pending exception, its last Java pc is
  classified safe and, for a virtual thread, the state tag is \<^verbatim>\<open>RUNNING\<close>, the object
  is a virtual thread instance, preemption is not disabled and, only while JVMTI events
  are notified, the target is neither in a VTMS transition nor suspended. It answers no
  exactly when one of these tests is reached and fails. The only other outcome is the
  fault of the pc classifier, reached after the first three tests passed. A call of
  \<^verbatim>\<open>try_preempt\<close> that reached the freeze entry had the answer yes on the state it
  was called in.
\<close>

lemma is_safe_to_preempt_tests:
  "(is_safe_to_preempt K target continuation is_vthread = Inr True \<longleftrightarrow>
      \<not> preempting target
      \<and> has_last_Java_frame target
      \<and> \<not> has_pending_exception target
      \<and> is_safe_pc_to_preempt K (last_Java_pc target) target = Inr True
      \<and> (is_vthread \<longrightarrow>
            vt_state (vthread target) = RUNNING
            \<and> vt_is_instance (vthread target)
            \<and> \<not> vt_is_preemption_disabled (vthread target)
            \<and> \<not> (notify_jvmti_events K
                   \<and> (is_in_VTMS_transition target \<or> is_suspended target))))
   \<and> (is_safe_to_preempt K target continuation is_vthread = Inl f \<longleftrightarrow>
      \<not> preempting target
      \<and> has_last_Java_frame target
      \<and> \<not> has_pending_exception target
      \<and> is_safe_pc_to_preempt K (last_Java_pc target) target = Inl f)
   \<and> (is_safe_to_preempt K target continuation is_vthread = Inr False \<longleftrightarrow>
      preempting target
      \<or> \<not> has_last_Java_frame target
      \<or> has_pending_exception target
      \<or> is_safe_pc_to_preempt K (last_Java_pc target) target = Inr False
      \<or> (is_safe_pc_to_preempt K (last_Java_pc target) target = Inr True
          \<and> is_vthread
          \<and> (vt_state (vthread target) \<noteq> RUNNING
               \<or> \<not> vt_is_instance (vthread target)
               \<or> vt_is_preemption_disabled (vthread target)
               \<or> (notify_jvmti_events K
                   \<and> (is_in_VTMS_transition target \<or> is_suspended target)))))
   \<and> (try_preempt K continuation w = Inr (res, w', calls)
        \<and> Call_freeze_preempt_entry sp \<in> set calls \<longrightarrow>
      is_safe_to_preempt K (target_thread (vm w)) continuation
        (continuation_scope (heap (vm w)) continuation = vthread_scope K) = Inr True)"
proof -
  have composite: "is_safe_to_preempt K target continuation is_vthread = Inr True \<longleftrightarrow>
      \<not> preempting target
      \<and> has_last_Java_frame target
      \<and> \<not> has_pending_exception target
      \<and> is_safe_pc_to_preempt K (last_Java_pc target) target = Inr True
      \<and> (is_vthread \<longrightarrow>
            vt_state (vthread target) = RUNNING
            \<and> vt_is_instance (vthread target)
            \<and> \<not> vt_is_preemption_disabled (vthread target)
            \<and> \<not> (notify_jvmti_events K
                   \<and> (is_in_VTMS_transition target \<or> is_suspended target)))"
    by (auto simp: is_safe_to_preempt_def is_safe_vthread_to_preempt_def
        is_safe_vthread_to_preempt_for_jvmti_def split: sum.splits if_splits)
  have faults: "is_safe_to_preempt K target continuation is_vthread = Inl f \<longleftrightarrow>
      \<not> preempting target
      \<and> has_last_Java_frame target
      \<and> \<not> has_pending_exception target
      \<and> is_safe_pc_to_preempt K (last_Java_pc target) target = Inl f"
    by (auto simp: is_safe_to_preempt_def split: sum.splits if_splits)
  have refuses: "is_safe_to_preempt K target continuation is_vthread = Inr False \<longleftrightarrow>
      preempting target
      \<or> \<not> has_last_Java_frame target
      \<or> has_pending_exception target
      \<or> is_safe_pc_to_preempt K (last_Java_pc target) target = Inr False
      \<or> (is_safe_pc_to_preempt K (last_Java_pc target) target = Inr True
          \<and> is_vthread
          \<and> (vt_state (vthread target) \<noteq> RUNNING
               \<or> \<not> vt_is_instance (vthread target)
               \<or> vt_is_preemption_disabled (vthread target)
               \<or> (notify_jvmti_events K
                   \<and> (is_in_VTMS_transition target \<or> is_suspended target))))"
    by (auto simp: is_safe_to_preempt_def is_safe_vthread_to_preempt_def
        is_safe_vthread_to_preempt_for_jvmti_def split: sum.splits if_splits)
  have dispatch: "try_preempt K continuation w = Inr (res, w', calls)
        \<and> Call_freeze_preempt_entry sp \<in> set calls \<longrightarrow>
      is_safe_to_preempt K (target_thread (vm w)) continuation
        (continuation_scope (heap (vm w)) continuation = vthread_scope K) = Inr True"
    using try_preempt_dispatched(3) [OF _ _ refl refl refl refl] by blast
  from composite faults refuses dispatch show ?thesis
    by (intro conjI)
qed


text \<open>
  C8. After a freeze that did not return \<^verbatim>\<open>freeze_ok\<close>, \<^verbatim>\<open>try_preempt\<close> clears
  the preempting flag in the state the engine left, \<^verbatim>\<open>fail_counter\<close> is one more than
  before (modulo \<open>2^64\<close>), and a debug transition that was begun is rolled back by
  \<^verbatim>\<open>finish_VTMS_transition\<close>, the last call; the flag is clear at the return if the
  rollback leaves it alone. After \<^verbatim>\<open>freeze_ok\<close> the counter is as before and
  \<^verbatim>\<open>try_preempt\<close> writes nothing more to the state the engine left: a debug transition
  that was begun is closed by \<^verbatim>\<open>rebind_to_jvmti_thread_state_of\<close> and not rolled back,
  and the flag, set before the freeze, is set at the return if the engine and the rebind
  leave it alone. A transition is begun exactly for the continuation of a virtual thread
  while JVMTI events are notified.
\<close>

theorem try_preempt_after_freeze:
  assumes "try_preempt K continuation w = Inr (res, w', calls)"
    and "Call_freeze_preempt_entry sp \<in> set calls"
    and "begun = (continuation_scope (heap (vm w)) continuation = vthread_scope K
                  \<and> notify_jvmti_events K)"
    and "s1 = (if begun then snd (start_VTMS_transition K (vm w)) else vm w)"
    and "s2 = set_preempting True s1"
    and "s3 = snd (freeze_preempt_entry K s2 sp)"
  shows "res = fst (freeze_preempt_entry K s2 sp)
    \<and> sp = last_Java_sp (target_thread s2)
    \<and> (if res \<noteq> freeze_ok
        then fail_counter w' = fail_counter w + 1
             \<and> vm w' = (if begun then finish_VTMS_transition K (set_preempting False s3)
                         else set_preempting False s3)
             \<and> calls = (if begun
                         then [Call_start_VTMS_transition, Call_freeze_preempt_entry sp,
                               Call_finish_VTMS_transition]
                         else [Call_freeze_preempt_entry sp])
             \<and> ((begun \<longrightarrow>
                    preempting (target_thread (finish_VTMS_transition K (set_preempting False s3)))
                    = preempting (target_thread (set_preempting False s3)))
                 \<longrightarrow> \<not> preempting (target_thread (vm w')))
        else fail_counter w' = fail_counter w
             \<and> vm w' = (if begun then rebind_to_jvmti_thread_state_of K s3 else s3)
             \<and> calls = (if begun
                         then [Call_start_VTMS_transition, Call_freeze_preempt_entry sp,
                               Call_rebind_to_jvmti_thread_state_of]
                         else [Call_freeze_preempt_entry sp])
             \<and> (preempting (target_thread s3)
                 \<and> (begun \<longrightarrow>
                    preempting (target_thread (rebind_to_jvmti_thread_state_of K s3))
                    = preempting (target_thread s3))
                 \<longrightarrow> preempting (target_thread (vm w'))))"
  using try_preempt_dispatched(5,6,7,8) [OF assms]
  by (simp add: set_preempting_def)

text \<open>
  The two demo runs: the collaborators there leave the flag alone.
\<close>

theorem try_preempt_after_freeze_witness:
  "try_preempt (demo_collaborators (freeze_other 2) True) (Some 1) (demo_state demo_thread)
     = Inr (freeze_other 2, (demo_state demo_thread)\<lparr>fail_counter := 42\<rparr>,
            [Call_start_VTMS_transition, Call_freeze_preempt_entry 4000,
             Call_finish_VTMS_transition])
   \<and> \<not> preempting (target_thread (vm ((demo_state demo_thread)\<lparr>fail_counter := 42\<rparr>)))
   \<and> fail_counter ((demo_state demo_thread)\<lparr>fail_counter := 42\<rparr>)
       = fail_counter (demo_state demo_thread) + 1
   \<and> try_preempt (demo_collaborators freeze_ok True) (Some 1) (demo_state demo_thread)
       = Inr (freeze_ok, demo_frozen_state,
              [Call_start_VTMS_transition, Call_freeze_preempt_entry 4000,
               Call_rebind_to_jvmti_thread_state_of])
   \<and> preempting (target_thread (vm demo_frozen_state))
   \<and> fail_counter demo_frozen_state = fail_counter (demo_state demo_thread)"
proof -
  let ?K = "demo_collaborators (freeze_other 2) True"
  let ?K' = "demo_collaborators freeze_ok True"
  let ?w = "demo_state demo_thread"
  let ?s1 = "set_in_VTMS_transition True (vm ?w)"
  let ?s2 = "set_preempting True ?s1"
  let ?s3 = "snd (demo_freeze freeze_ok ?s2 4000)"
  have sent: "Call_freeze_preempt_entry 4000
      \<in> set [Call_start_VTMS_transition, Call_freeze_preempt_entry 4000,
             Call_finish_VTMS_transition]"
    and sent': "Call_freeze_preempt_entry 4000
      \<in> set [Call_start_VTMS_transition, Call_freeze_preempt_entry 4000,
             Call_rebind_to_jvmti_thread_state_of]"
    by simp_all
  have begun: "True = (continuation_scope (heap (vm ?w)) (Some 1) = vthread_scope ?K
                  \<and> notify_jvmti_events ?K)"
    and begun': "True = (continuation_scope (heap (vm ?w)) (Some 1) = vthread_scope ?K'
                  \<and> notify_jvmti_events ?K')"
    by (simp_all add: continuation_scope_def demo_defs)
  have s1: "?s1 = (if True then snd (start_VTMS_transition ?K (vm ?w)) else vm ?w)"
    and s1': "?s1 = (if True then snd (start_VTMS_transition ?K' (vm ?w)) else vm ?w)"
    by (simp_all add: demo_collaborators_def)
  have s3: "?s2 = snd (freeze_preempt_entry ?K ?s2 4000)"
    and s3': "?s3 = snd (freeze_preempt_entry ?K' ?s2 4000)"
    by (simp_all add: demo_collaborators_def demo_freeze_def)
  have rollback: "preempting (target_thread (finish_VTMS_transition ?K (set_preempting False ?s2)))
      = preempting (target_thread (set_preempting False ?s2))"
    by (simp add: demo_collaborators_def set_in_VTMS_transition_def)
  have engine: "preempting (target_thread ?s3)"
    by (simp add: demo_defs set_preempting_def)
  have rebind: "preempting (target_thread (rebind_to_jvmti_thread_state_of ?K' ?s3))
      = preempting (target_thread ?s3)"
    by (simp add: demo_collaborators_def)
  have failed: "\<not> preempting (target_thread (vm (?w\<lparr>fail_counter := 42\<rparr>)))
      \<and> fail_counter (?w\<lparr>fail_counter := 42\<rparr>) = fail_counter ?w + 1"
    using try_preempt_after_freeze [OF demo_run_failed sent begun s1 refl s3] rollback
    by simp
  have frozen: "preempting (target_thread (vm demo_frozen_state))
      \<and> fail_counter demo_frozen_state = fail_counter ?w"
    using try_preempt_after_freeze [OF demo_run_frozen sent' begun' s1' refl s3'] engine rebind
    by simp
  from failed frozen demo_run_failed demo_run_frozen show ?thesis
    by simp
qed

section \<open>Pinning: theorems\<close>

text \<open>
  C6. With an innermost entry whose pin count is zero, unpin returns false, changes
  nothing (the JNI entry throws "pin underflow"), and from a count that is not negative
  unpin never leaves a negative one. With a count that would exceed the maximum, pin
  returns false and changes nothing (the JNI entry throws "pin overflow"). With no
  continuation mounted both return true and change nothing.
\<close>

theorem pin_unpin_results:
  "(last_continuation current = Some ce \<and> pin_count ce = 0 \<longrightarrow>
      Continuation_unpin current = (False, current)
      \<and> CONT_unpin current = (Some (IllegalStateException ''pin underflow''), current))
   \<and> (last_continuation current = Some ce \<and> pin_count ce + 1 > pin_max \<longrightarrow>
      Continuation_pin pin_max current = (False, current)
      \<and> CONT_pin pin_max current = (Some (IllegalStateException ''pin overflow''), current))
   \<and> (last_continuation current = None \<longrightarrow>
      Continuation_pin pin_max current = (True, current)
      \<and> Continuation_unpin current = (True, current)
      \<and> CONT_pin pin_max current = (None, current)
      \<and> CONT_unpin current = (None, current))
   \<and> (last_continuation current = Some ce \<and> 0 \<le> pin_count ce \<longrightarrow>
      (\<exists>ce'. last_continuation (snd (Continuation_unpin current)) = Some ce'
             \<and> 0 \<le> pin_count ce'))"
  by (auto simp: last_continuation_def Continuation_pin_def Continuation_unpin_def
      ContinuationEntry_pin_def ContinuationEntry_unpin_def CONT_pin_def CONT_unpin_def
      split: list.splits)

theorem pin_unpin_results_witness:
  "Continuation_unpin demo_thread = (False, demo_thread)
   \<and> CONT_unpin demo_thread = (Some (IllegalStateException ''pin underflow''), demo_thread)
   \<and> Continuation_pin 0 demo_thread = (False, demo_thread)
   \<and> CONT_pin 0 demo_thread = (Some (IllegalStateException ''pin overflow''), demo_thread)
   \<and> Continuation_pin 7 (demo_thread\<lparr>cont_chain := []\<rparr>)
       = (True, demo_thread\<lparr>cont_chain := []\<rparr>)
   \<and> Continuation_unpin (demo_thread\<lparr>cont_chain := []\<rparr>)
       = (True, demo_thread\<lparr>cont_chain := []\<rparr>)"
proof -
  have mounted: "last_continuation demo_thread = Some (demo_entry 1 5000)"
    by (simp add: last_continuation_def demo_defs)
  have zero: "pin_count (demo_entry 1 5000) = 0"
    by (simp add: demo_defs)
  have unmounted: "last_continuation (demo_thread\<lparr>cont_chain := []\<rparr>) = None"
    by (simp add: last_continuation_def)
  show ?thesis
    using pin_unpin_results [of demo_thread "demo_entry 1 5000" 0] mounted zero
      pin_unpin_results [of "demo_thread\<lparr>cont_chain := []\<rparr>" "demo_entry 1 5000" 7] unmounted
    by simp
qed

end
